theory Spec2Isabelle
  imports Main "HOL-Library.Word" "HOL-Library.Sublist"
begin

section \<open>Strings and numbers of the host language\<close>

text \<open>
  A TypeScript string is a sequence of UTF-16 code units. The literals of the source are
  written with \<open>js\<close> for their ASCII parts and with explicit code units elsewhere
  (\<open>0xFC\<close> for u-umlaut, \<open>0x2014\<close> for the em dash, a surrogate pair for the emoji).
\<close>

type_synonym js_string = "16 word list"

definition js :: "string \<Rightarrow> js_string" where
  "js s = map (\<lambda>c. of_nat (of_char c)) s"

definition NL :: js_string where
  "NL = [0x0A]"

text \<open>
  \<open>String.prototype.trim\<close> removes the ECMAScript WhiteSpace and LineTerminator code
  points from both ends: TAB, LF, VT, FF, CR, SP, NBSP, U+1680, U+2000 to U+200A, U+2028,
  U+2029, U+202F, U+205F, U+3000 and U+FEFF. All of them are single code units.
\<close>

definition isWhiteSpace :: "16 word \<Rightarrow> bool" where
  "isWhiteSpace c \<longleftrightarrow>
     c = 0x09 \<or> c = 0x0A \<or> c = 0x0B \<or> c = 0x0C \<or> c = 0x0D \<or> c = 0x20 \<or> c = 0xA0 \<or>
     c = 0x1680 \<or> (0x2000 \<le> c \<and> c \<le> 0x200A) \<or> c = 0x2028 \<or> c = 0x2029 \<or>
     c = 0x202F \<or> c = 0x205F \<or> c = 0x3000 \<or> c = 0xFEFF"

definition trim :: "js_string \<Rightarrow> js_string" where
  "trim s = rev (dropWhile isWhiteSpace (rev (dropWhile isWhiteSpace s)))"

text \<open>
  \<open>String.prototype.toLowerCase\<close> is modelled on the code units that matter to the one
  comparison the program makes with it (\<open>=== 'skip'\<close>): the ASCII capitals, and U+212A
  KELVIN SIGN, whose lower case is \<open>k\<close>. Every other code unit is kept as it is. The
  Unicode lower-casing of no other code point yields one of the letters of \<open>skip\<close> alone
  (U+0130 yields \<open>i\<close> followed by U+0307), so the model's result equals \<open>skip\<close>
  exactly when the host's does.
\<close>

definition lowerUnit :: "16 word \<Rightarrow> 16 word" where
  "lowerUnit c = (if 0x41 \<le> c \<and> c \<le> 0x5A then c + 0x20 else if c = 0x212A then 0x6B else c)"

definition toLowerCase :: "js_string \<Rightarrow> js_string" where
  "toLowerCase s = map lowerUnit s"

text \<open>
  A number in a template literal prints in decimal, with a leading minus sign when it is
  negative. Steps are integers far below the bound (\<open>10^21\<close>) where the host switches to
  exponent notation.
\<close>

fun digits :: "nat \<Rightarrow> js_string" where
  "digits n = (if n < 10 then [of_nat (48 + n)] else digits (n div 10) @ [of_nat (48 + n mod 10)])"

declare digits.simps [simp del]

definition numberToString :: "int \<Rightarrow> js_string" where
  "numberToString i = (if i < 0 then 0x2D # digits (nat (- i)) else digits (nat i))"

text \<open>A string that may be \<open>undefined\<close>, spliced into a template literal.\<close>

definition splice :: "js_string option \<Rightarrow> js_string" where
  "splice v = (case v of None \<Rightarrow> js ''undefined'' | Some s \<Rightarrow> s)"

text \<open>Indexing an array: \<open>undefined\<close> outside \<open>0 .. length - 1\<close>.\<close>

definition at_index :: "'a list \<Rightarrow> int \<Rightarrow> 'a option" where
  "at_index xs i = (if 0 \<le> i \<and> i < int (length xs) then Some (xs ! nat i) else None)"

section \<open>Types (types.ts)\<close>

datatype field_key = name | personality | coreValues | tone | backstory | signature

type_synonym SoulAnswers = "field_key \<rightharpoonup> js_string"

record SoulQuestion =
  step :: int
  field :: field_key
  question :: js_string
  optional :: bool

definition SOUL_QUESTIONS :: "SoulQuestion list" where
  "SOUL_QUESTIONS = [
     \<lparr>step = 1, field = name,
      question = js ''Wie soll dein Agent hei'' @ [0xDF] @ js ''en?'',
      optional = False\<rparr>,
     \<lparr>step = 2, field = personality,
      question = js ''Beschreibe die Pers'' @ [0xF6] @
        js ''nlichkeit in 3 Adjektiven (z.B. warm, direkt, neugierig)'',
      optional = False\<rparr>,
     \<lparr>step = 3, field = coreValues,
      question = js ''Was sind 2-3 Kernwerte deines Agenten?'',
      optional = False\<rparr>,
     \<lparr>step = 4, field = tone,
      question = js ''Kommunikationsstil: formell / locker-professionell / casual / technisch-pr''
        @ [0xE4] @ js ''zise'',
      optional = False\<rparr>,
     \<lparr>step = 5, field = backstory,
      question = js ''Gib deinem Agenten eine Herkunft '' @ [0x2014] @ js '' 1-2 S'' @ [0xE4] @
        js ''tze.'',
      optional = False\<rparr>,
     \<lparr>step = 6, field = signature,
      question = js ''Ein typischer Erkennungs-Satz deines Agenten? (oder '' @ [0x22] @
        js ''skip'' @ [0x22] @ js '' zum '' @ [0xDC] @ js ''berspringen)'',
      optional = True\<rparr>]"

definition TOTAL_STEPS :: int where
  "TOTAL_STEPS = int (length SOUL_QUESTIONS)"

record SoulState =
  step :: int
  answers :: SoulAnswers
  createdAt :: int

record ToolResult =
  success :: bool
  message :: js_string
  nextQuestion :: "js_string option"
  currentStep :: "int option"
  totalSteps :: "int option"
  isComplete :: "bool option"
  soulMd :: "js_string option"

section \<open>Session store and operations (soul-builder.ts)\<close>

type_synonym sessions = "js_string \<rightharpoonup> SoulState"

definition SESSION_EXPIRY_MS :: int where
  "SESSION_EXPIRY_MS = 60 * 60 * 1000"

text \<open>
  The callback of \<open>setInterval\<close>: one sweep at clock reading \<open>now\<close> (milliseconds)
  deletes every session older than the expiry window.
\<close>

definition sweep :: "int \<Rightarrow> sessions \<Rightarrow> sessions" where
  "sweep now sessions =
     (\<lambda>sessionId. case sessions sessionId of
        None \<Rightarrow> None
      | Some state \<Rightarrow> if now - createdAt state > SESSION_EXPIRY_MS then None else Some state)"

text \<open>
  \<open>startSoulBuilder\<close> reads the clock when it creates a session; the reading is the
  parameter \<open>now\<close>. It returns its result and the store after the call.
\<close>

definition startSoulBuilder :: "int \<Rightarrow> sessions \<Rightarrow> js_string \<Rightarrow> ToolResult \<times> sessions" where
  "startSoulBuilder now sessions sessionId =
     (case sessions sessionId of
        Some existing \<Rightarrow>
          (let currentQuestion = at_index SOUL_QUESTIONS (step existing - 1) in
           (\<lparr>success = True,
             message = js ''Session bereits aktiv. Wir sind bei Frage '' @
               numberToString (step existing) @ js ''/'' @ numberToString TOTAL_STEPS @ js ''.'',
             nextQuestion = map_option question currentQuestion,
             currentStep = Some (step existing),
             totalSteps = Some TOTAL_STEPS,
             isComplete = Some (step existing > TOTAL_STEPS),
             soulMd = None\<rparr>,
            sessions))
      | None \<Rightarrow>
          (let firstQuestion = SOUL_QUESTIONS ! 0 in
           (\<lparr>success = True,
             message = js ''Willkommen beim Soul Builder! '' @ [0xD83C, 0xDFAD] @ NL @ NL @
               js ''Ich helfe dir, die Identit'' @ [0xE4] @
               js ''t deines KI-Agenten zu definieren. In '' @ numberToString TOTAL_STEPS @
               js '' kurzen Fragen erstellen wir gemeinsam ein SOUL.md '' @ [0x2014] @
               js '' das Herzst'' @ [0xFC] @ js ''ck deines Agenten.'' @ NL @ NL @
               js ''Die Kernthese von ag3nt.id: '' @ [0x22] @
               js ''Ein Agent ohne Soul ist nur ein Werkzeug.'' @ [0x22] @ NL @ NL @
               js ''Lass uns starten!'',
             nextQuestion = Some (question firstQuestion),
             currentStep = Some 1,
             totalSteps = Some TOTAL_STEPS,
             isComplete = Some False,
             soulMd = None\<rparr>,
            sessions(sessionId \<mapsto> \<lparr>step = 1, answers = Map.empty, createdAt = now\<rparr>))))"

text \<open>
  Reading a property of \<open>undefined\<close> throws a \<open>TypeError\<close>; \<open>answerQuestion\<close> does so
  when the step of the stored session is below 1. The store after the call is returned in
  every case. The parameters are strings, as their TypeScript types say.
\<close>

datatype fault = TypeError

text \<open>
  The end of \<open>answerQuestion\<close>, which both storing branches reach with the updated
  answers: the step is incremented in place, then completion is checked.
\<close>

definition moveToNextStep :: "sessions \<Rightarrow> js_string \<Rightarrow> SoulState \<Rightarrow> (fault + ToolResult) \<times> sessions" where
  "moveToNextStep sessions sessionId stored =
     (let state = stored\<lparr>step := step stored + 1\<rparr>;
          sessions' = sessions(sessionId \<mapsto> state)
      in if step state > TOTAL_STEPS then
           (Inr \<lparr>success = True,
                 message = js ''Perfekt! Alle '' @ numberToString TOTAL_STEPS @
                   js '' Fragen beantwortet. Dein Agent '' @ [0x22] @ splice (answers state name) @
                   [0x22] @ js '' ist bereit!'' @ NL @ NL @
                   js ''Nutze jetzt generate_soul um dein SOUL.md zu erstellen.'',
                 nextQuestion = None,
                 currentStep = Some (step state),
                 totalSteps = Some TOTAL_STEPS,
                 isComplete = Some True,
                 soulMd = None\<rparr>,
            sessions')
         else
           (case at_index SOUL_QUESTIONS (step state - 1) of
              None \<Rightarrow> (Inl TypeError, sessions')
            | Some nextQ \<Rightarrow>
                (Inr \<lparr>success = True,
                      message = js ''Antwort gespeichert! Weiter zu Frage '' @
                        numberToString (step state) @ js ''/'' @ numberToString TOTAL_STEPS @
                        js '':'',
                      nextQuestion = Some (question nextQ),
                      currentStep = Some (step state),
                      totalSteps = Some TOTAL_STEPS,
                      isComplete = Some False,
                      soulMd = None\<rparr>,
                 sessions')))"

definition answerQuestion :: "sessions \<Rightarrow> js_string \<Rightarrow> js_string \<Rightarrow> (fault + ToolResult) \<times> sessions" where
  "answerQuestion sessions sessionId answer =
     (case sessions sessionId of
        None \<Rightarrow>
          (Inr \<lparr>success = False,
                message = js ''Keine aktive Session gefunden. Bitte starte mit start_soul_builder.'',
                nextQuestion = None, currentStep = None, totalSteps = None,
                isComplete = None, soulMd = None\<rparr>,
           sessions)
      | Some state \<Rightarrow>
          if step state > TOTAL_STEPS then
            (Inr \<lparr>success = True,
                  message = js ''Alle Fragen beantwortet! Nutze generate_soul um dein SOUL.md zu erstellen.'',
                  nextQuestion = None,
                  currentStep = Some (step state),
                  totalSteps = Some TOTAL_STEPS,
                  isComplete = Some True,
                  soulMd = None\<rparr>,
             sessions)
          else
            (case at_index SOUL_QUESTIONS (step state - 1) of
               None \<Rightarrow> (Inl TypeError, sessions)
             | Some currentQuestion \<Rightarrow>
                 (let trimmedAnswer = trim answer in
                  if optional currentQuestion \<and> toLowerCase trimmedAnswer = js ''skip'' then
                    moveToNextStep sessions sessionId
                      (state\<lparr>answers := (answers state)(field currentQuestion \<mapsto> [])\<rparr>)
                  else if trimmedAnswer = [] \<and> \<not> optional currentQuestion then
                    (Inr \<lparr>success = False,
                          message = js ''Diese Frage ist erforderlich. Bitte beantworte: '' @
                            question currentQuestion,
                          nextQuestion = None,
                          currentStep = Some (step state),
                          totalSteps = Some TOTAL_STEPS,
                          isComplete = None,
                          soulMd = None\<rparr>,
                     sessions)
                  else
                    moveToNextStep sessions sessionId
                      (state\<lparr>answers := (answers state)(field currentQuestion \<mapsto> trimmedAnswer)\<rparr>))))"

text \<open>
  \<open>generateSoulMd\<close> is applied to the stored answers cast to the full record type; the
  cast does nothing at run time, so a missing field prints as \<open>undefined\<close>, and a missing
  or empty signature is falsy.
\<close>

definition signatureSection :: "SoulAnswers \<Rightarrow> js_string" where
  "signatureSection a =
     (case a signature of
        None \<Rightarrow> js ''## Signature'' @ NL @ js ''*Keine Signatur definiert*''
      | Some sig \<Rightarrow>
          if sig \<noteq> [] then js ''## Signature'' @ NL @ sig
          else js ''## Signature'' @ NL @ js ''*Keine Signatur definiert*'')"

definition generateSoulMd :: "SoulAnswers \<Rightarrow> js_string" where
  "generateSoulMd a =
     js ''# SOUL.md '' @ [0x2014] @ js '' '' @ splice (a name) @ NL @
     NL @
     js ''## Identity'' @ NL @
     js ''**Name:** '' @ splice (a name) @ NL @
     js ''**Personality:** '' @ splice (a personality) @ NL @
     js ''**Core Values:** '' @ splice (a coreValues) @ NL @
     NL @
     js ''## Communication Style'' @ NL @
     js ''**Tone:** '' @ splice (a tone) @ NL @
     NL @
     js ''## Backstory'' @ NL @
     splice (a backstory) @ NL @
     NL @
     signatureSection a @ NL @
     NL @
     js ''---'' @ NL @
     js ''*Generated by Soul Builder '' @ [0x2014] @ js '' ag3nt.id*'' @ NL @
     js ''*Give your agent an identity.*'' @ NL"

text \<open>\<open>generateSoul\<close> and \<open>exportSoul\<close> only read the store.\<close>

definition generateSoul :: "sessions \<Rightarrow> js_string \<Rightarrow> ToolResult" where
  "generateSoul sessions sessionId =
     (case sessions sessionId of
        None \<Rightarrow>
          \<lparr>success = False,
           message = js ''Keine aktive Session gefunden. Bitte starte mit start_soul_builder.'',
           nextQuestion = None, currentStep = None, totalSteps = None,
           isComplete = None, soulMd = None\<rparr>
      | Some state \<Rightarrow>
          if step state \<le> TOTAL_STEPS then
            (let remaining = TOTAL_STEPS - step state + 1 in
             \<lparr>success = False,
              message = js ''Noch '' @ numberToString remaining @
                js '' Frage(n) offen. Bitte beantworte alle Fragen zuerst.'',
              nextQuestion = None,
              currentStep = Some (step state),
              totalSteps = Some TOTAL_STEPS,
              isComplete = None, soulMd = None\<rparr>)
          else
            (let md = generateSoulMd (answers state) in
             \<lparr>success = True,
              message = js ''SOUL.md f'' @ [0xFC] @ js ''r '' @ [0x22] @ splice (answers state name) @
                [0x22] @ js '' erfolgreich generiert!'',
              nextQuestion = None, currentStep = None, totalSteps = None,
              isComplete = Some True,
              soulMd = Some md\<rparr>))"

definition exportSoul :: "sessions \<Rightarrow> js_string \<Rightarrow> ToolResult" where
  "exportSoul sessions sessionId =
     (case sessions sessionId of
        None \<Rightarrow>
          \<lparr>success = False,
           message = js ''Keine aktive Session gefunden. Bitte starte mit start_soul_builder.'',
           nextQuestion = None, currentStep = None, totalSteps = None,
           isComplete = None, soulMd = None\<rparr>
      | Some state \<Rightarrow>
          if step state \<le> TOTAL_STEPS then
            \<lparr>success = False,
             message = js ''Soul noch nicht vollst'' @ [0xE4] @
               js ''ndig. Bitte beantworte alle Fragen und nutze generate_soul.'',
             nextQuestion = None, currentStep = None, totalSteps = None,
             isComplete = None, soulMd = None\<rparr>
          else
            (let md = generateSoulMd (answers state) in
             \<lparr>success = True,
              message = js ''Hier ist dein SOUL.md zum Kopieren:'',
              nextQuestion = None, currentStep = None, totalSteps = None,
              isComplete = None,
              soulMd = Some md\<rparr>))"

section \<open>Sequences of operations\<close>

text \<open>
  What can happen to the store: one of the four tool calls that the server dispatches
  (server.ts, the \<open>switch\<close> on the tool name), or one firing of the sweep timer. A call
  of \<open>start_soul_builder\<close> and a firing of the timer carry the clock reading they see.
\<close>

datatype event =
    Start js_string int
  | Answer js_string js_string
  | Generate js_string
  | Export js_string
  | Sweep int

fun exec :: "event \<Rightarrow> sessions \<Rightarrow> sessions" where
  "exec (Start sessionId now) sessions = snd (startSoulBuilder now sessions sessionId)"
| "exec (Answer sessionId answer) sessions = snd (answerQuestion sessions sessionId answer)"
| "exec (Generate sessionId) sessions = sessions"
| "exec (Export sessionId) sessions = sessions"
| "exec (Sweep now) sessions = sweep now sessions"

fun run :: "event list \<Rightarrow> sessions \<Rightarrow> sessions" where
  "run [] sessions = sessions"
| "run (e # es) sessions = run es (exec e sessions)"

text \<open>The tool calls, as opposed to the timer.\<close>

fun is_call :: "event \<Rightarrow> bool" where
  "is_call (Sweep now) = False"
| "is_call e = True"

text \<open>The range of the step that the data model gives: 1 to \<open>TOTAL_STEPS + 1\<close>.\<close>

definition steps_in_range :: "sessions \<Rightarrow> bool" where
  "steps_in_range sessions \<longleftrightarrow>
     (\<forall>sessionId state. sessions sessionId = Some state \<longrightarrow>
        1 \<le> step state \<and> step state \<le> TOTAL_STEPS + 1)"

section \<open>A worked scenario\<close>

text \<open>
  The end-to-end scenario: a session \<open>s1\<close> is started at clock reading 0 and answers all
  six questions, the last one with the skip sentinel. \<open>just_started\<close> is the store
  before the first answer, \<open>in_progress\<close> the store after the first two answers,
  \<open>awaiting_signature\<close> the store after the five required answers.
\<close>

definition s1 :: js_string where
  "s1 = js ''s1''"

definition in_progress_events :: "event list" where
  "in_progress_events =
     [Start s1 0, Answer s1 (js ''Aria''), Answer s1 (js ''warm, direkt, neugierig'')]"

definition remaining_required_events :: "event list" where
  "remaining_required_events =
     [Answer s1 (js ''Ehrlichkeit, Neugier''), Answer s1 (js ''casual''),
      Answer s1 (js ''Born in a lab.'')]"

definition scenario_events :: "event list" where
  "scenario_events = in_progress_events @ remaining_required_events @ [Answer s1 (js '' Skip '')]"

definition just_started :: sessions where
  "just_started = run [Start s1 0] Map.empty"

definition in_progress :: sessions where
  "in_progress = run in_progress_events Map.empty"

definition awaiting_signature :: sessions where
  "awaiting_signature = run (in_progress_events @ remaining_required_events) Map.empty"

definition scenario :: sessions where
  "scenario = run scenario_events Map.empty"

section \<open>Facts about the question list\<close>

lemma TOTAL_STEPS_eq: "TOTAL_STEPS = 6"
  by (simp add: TOTAL_STEPS_def SOUL_QUESTIONS_def)

lemma at_index_Some_range:
  "at_index xs i = Some q \<Longrightarrow> 0 \<le> i \<and> i < int (length xs)"
  by (simp add: at_index_def split: if_splits)

lemma at_index_in_range:
  "0 \<le> i \<Longrightarrow> i < int (length xs) \<Longrightarrow> at_index xs i = Some (xs ! nat i)"
  by (simp add: at_index_def)

lemma at_index_past_end: "at_index SOUL_QUESTIONS TOTAL_STEPS = None"
  by (simp add: at_index_def TOTAL_STEPS_def)

lemma question_at_step:
  "at_index SOUL_QUESTIONS (k - 1) = Some q \<Longrightarrow> 1 \<le> k \<and> k \<le> TOTAL_STEPS"
  by (auto simp: TOTAL_STEPS_def dest: at_index_Some_range)

lemma question_at_next_step:
  assumes "at_index SOUL_QUESTIONS (k - 1) = Some q" and "k + 1 \<le> TOTAL_STEPS"
  shows "at_index SOUL_QUESTIONS (k + 1 - 1) = Some (SOUL_QUESTIONS ! nat k)"
proof -
  from assms(1) have "1 \<le> k" by (rule question_at_step [THEN conjunct1])
  with assms(2) show ?thesis
    by (simp add: at_index_in_range TOTAL_STEPS_def)
qed

section \<open>The scenario, evaluated\<close>

lemmas scenario_defs =
  scenario_def scenario_events_def in_progress_events_def remaining_required_events_def
  in_progress_def awaiting_signature_def s1_def

lemmas evaluation_defs =
  startSoulBuilder_def answerQuestion_def moveToNextStep_def at_index_def SOUL_QUESTIONS_def
  TOTAL_STEPS_def js_def trim_def isWhiteSpace_def toLowerCase_def lowerUnit_def

lemma just_started_s1:
  "just_started s1 = Some \<lparr>step = 1, answers = Map.empty, createdAt = 0\<rparr>"
  by (simp add: just_started_def startSoulBuilder_def)

lemma in_progress_s1:
  "in_progress s1 =
     Some \<lparr>step = 3,
           answers = [name \<mapsto> js ''Aria'', personality \<mapsto> js ''warm, direkt, neugierig''],
           createdAt = 0\<rparr>"
  by (simp add: scenario_defs evaluation_defs)

lemma awaiting_signature_s1:
  "awaiting_signature s1 =
     Some \<lparr>step = 6,
           answers = [name \<mapsto> js ''Aria'', personality \<mapsto> js ''warm, direkt, neugierig'',
                      coreValues \<mapsto> js ''Ehrlichkeit, Neugier'', tone \<mapsto> js ''casual'',
                      backstory \<mapsto> js ''Born in a lab.''],
           createdAt = 0\<rparr>"
  by (simp add: scenario_defs evaluation_defs)

lemma scenario_s1:
  "scenario s1 =
     Some \<lparr>step = 7,
           answers = [name \<mapsto> js ''Aria'', personality \<mapsto> js ''warm, direkt, neugierig'',
                      coreValues \<mapsto> js ''Ehrlichkeit, Neugier'', tone \<mapsto> js ''casual'',
                      backstory \<mapsto> js ''Born in a lab.'', signature \<mapsto> []],
           createdAt = 0\<rparr>"
  by (simp add: scenario_defs evaluation_defs)

lemma third_question:
  "at_index SOUL_QUESTIONS (3 - 1) = Some (SOUL_QUESTIONS ! 2) \<and>
   \<not> optional (SOUL_QUESTIONS ! 2) \<and> field (SOUL_QUESTIONS ! 2) = coreValues"
  by (simp add: at_index_def SOUL_QUESTIONS_def)

section \<open>Validation of required answers\<close>

text \<open>
  Claim C1. When a session awaits a required question (its step is at most
  \<open>TOTAL_STEPS\<close> and the question \<open>q\<close> at that step is not optional), an answer whose trim is
  empty gets a failure result (\<open>success = False\<close>) whose message repeats the text of \<open>q\<close>
  and whose \<open>currentStep\<close> is the unchanged step; the store after the call is the store
  before it, so neither the step nor the answers nor anything else of any session changed.
\<close>

theorem required_empty_answer_rejected:
  assumes "sessions sessionId = Some state"
    and "step state \<le> TOTAL_STEPS"
    and "at_index SOUL_QUESTIONS (step state - 1) = Some q"
    and "\<not> optional q"
    and "trim answer = []"
  shows "answerQuestion sessions sessionId answer =
     (Inr \<lparr>success = False,
           message = js ''Diese Frage ist erforderlich. Bitte beantworte: '' @ question q,
           nextQuestion = None,
           currentStep = Some (step state),
           totalSteps = Some TOTAL_STEPS,
           isComplete = None,
           soulMd = None\<rparr>,
      sessions)"
  using assms by (simp add: answerQuestion_def)

theorem required_empty_answer_rejected_witness:
  "answerQuestion in_progress s1 [0x20, 0x09, 0xA0] =
     (Inr \<lparr>success = False,
           message = js ''Diese Frage ist erforderlich. Bitte beantworte: '' @
             js ''Was sind 2-3 Kernwerte deines Agenten?'',
           nextQuestion = None,
           currentStep = Some 3,
           totalSteps = Some 6,
           isComplete = None,
           soulMd = None\<rparr>,
      in_progress)"
proof -
  have tr: "trim [0x20, 0x09, 0xA0] = []"
    by (simp add: trim_def isWhiteSpace_def)
  have q: "question (SOUL_QUESTIONS ! 2) = js ''Was sind 2-3 Kernwerte deines Agenten?''"
    by (simp add: SOUL_QUESTIONS_def)
  show ?thesis
    using required_empty_answer_rejected
        [where sessions = in_progress and sessionId = s1 and q = "SOUL_QUESTIONS ! 2",
         OF in_progress_s1 _ _ _ tr]
      third_question
    by (simp add: TOTAL_STEPS_eq q)
qed

section \<open>Answers after completion\<close>

text \<open>
  Claim C8. When a session is complete (its step exceeds \<open>TOTAL_STEPS\<close>),
  \<open>answerQuestion\<close> returns a result with \<open>success = True\<close> and \<open>isComplete = True\<close> whose
  message says that all questions are answered and points to \<open>generate_soul\<close>; the store
  after the call is the store before it, whatever the answer was.
\<close>

theorem answer_after_completion_is_informational:
  assumes "sessions sessionId = Some state"
    and "step state > TOTAL_STEPS"
  shows "answerQuestion sessions sessionId answer =
     (Inr \<lparr>success = True,
           message =
             js ''Alle Fragen beantwortet! Nutze generate_soul um dein SOUL.md zu erstellen.'',
           nextQuestion = None,
           currentStep = Some (step state),
           totalSteps = Some TOTAL_STEPS,
           isComplete = Some True,
           soulMd = None\<rparr>,
      sessions)"
  using assms by (simp add: answerQuestion_def)

theorem answer_after_completion_is_informational_witness:
  "answerQuestion scenario s1 (js ''one more'') =
     (Inr \<lparr>success = True,
           message =
             js ''Alle Fragen beantwortet! Nutze generate_soul um dein SOUL.md zu erstellen.'',
           nextQuestion = None,
           currentStep = Some 7,
           totalSteps = Some 6,
           isComplete = Some True,
           soulMd = None\<rparr>,
      scenario)"
  using answer_after_completion_is_informational
      [where sessions = scenario and sessionId = s1 and answer = "js ''one more''",
       OF scenario_s1]
  by (simp add: TOTAL_STEPS_eq)

section \<open>Starting a session that is complete\<close>

text \<open>
  Claim C10. \<open>startSoulBuilder\<close> on an identifier whose session is complete (step
  \<open>TOTAL_STEPS + 1\<close>) returns \<open>success = True\<close>, \<open>isComplete = True\<close>,
  \<open>currentStep = TOTAL_STEPS + 1\<close> and no \<open>nextQuestion\<close>, and the store after the call is
  the store before it: the session is not reset.
\<close>

theorem start_on_complete_session:
  assumes "sessions sessionId = Some state"
    and "step state = TOTAL_STEPS + 1"
  shows "snd (startSoulBuilder now sessions sessionId) = sessions \<and>
    success (fst (startSoulBuilder now sessions sessionId)) \<and>
    isComplete (fst (startSoulBuilder now sessions sessionId)) = Some True \<and>
    currentStep (fst (startSoulBuilder now sessions sessionId)) = Some (TOTAL_STEPS + 1) \<and>
    totalSteps (fst (startSoulBuilder now sessions sessionId)) = Some TOTAL_STEPS \<and>
    nextQuestion (fst (startSoulBuilder now sessions sessionId)) = None"
  using assms by (simp add: startSoulBuilder_def at_index_past_end)

theorem start_on_complete_session_witness:
  "snd (startSoulBuilder 5000 scenario s1) = scenario \<and>
    success (fst (startSoulBuilder 5000 scenario s1)) \<and>
    isComplete (fst (startSoulBuilder 5000 scenario s1)) = Some True \<and>
    currentStep (fst (startSoulBuilder 5000 scenario s1)) = Some 7 \<and>
    totalSteps (fst (startSoulBuilder 5000 scenario s1)) = Some 6 \<and>
    nextQuestion (fst (startSoulBuilder 5000 scenario s1)) = None"
  using start_on_complete_session
      [where sessions = scenario and sessionId = s1 and now = 5000, OF scenario_s1]
  by (simp add: TOTAL_STEPS_eq)


section \<open>How one event changes the store\<close>

lemma moveToNextStep_store:
  "snd (moveToNextStep sessions sessionId stored) =
     sessions(sessionId \<mapsto> stored\<lparr>step := step stored + 1\<rparr>)"
  by (simp add: moveToNextStep_def Let_def split: option.split)

lemma answerQuestion_store:
  "snd (answerQuestion sessions sessionId answer) = sessions \<or>
   (\<exists>state q v. sessions sessionId = Some state \<and> step state \<le> TOTAL_STEPS \<and>
      at_index SOUL_QUESTIONS (step state - 1) = Some q \<and>
      snd (answerQuestion sessions sessionId answer) =
        sessions(sessionId \<mapsto> state\<lparr>answers := (answers state)(field q \<mapsto> v),
                                      step := step state + 1\<rparr>))"
proof (cases "sessions sessionId")
  case None
  then show ?thesis by (simp add: answerQuestion_def)
next
  case (Some state)
  note present = this
  show ?thesis
  proof (cases "step state > TOTAL_STEPS")
    case True
    with present show ?thesis by (simp add: answerQuestion_def)
  next
    case False
    note awaiting = this
    show ?thesis
    proof (cases "at_index SOUL_QUESTIONS (step state - 1)")
      case None
      with present awaiting show ?thesis by (simp add: answerQuestion_def)
    next
      case (Some q)
      note current = this
      consider (skip) "optional q \<and> toLowerCase (trim answer) = js ''skip''"
        | (rejected) "\<not> (optional q \<and> toLowerCase (trim answer) = js ''skip'')"
            "trim answer = [] \<and> \<not> optional q"
        | (stored) "\<not> (optional q \<and> toLowerCase (trim answer) = js ''skip'')"
            "\<not> (trim answer = [] \<and> \<not> optional q)"
        by blast
      then show ?thesis
      proof cases
        case skip
        with present awaiting current
        have "snd (answerQuestion sessions sessionId answer) =
            sessions(sessionId \<mapsto> state\<lparr>answers := (answers state)(field q \<mapsto> []),
                                          step := step state + 1\<rparr>)"
          by (auto simp add: answerQuestion_def moveToNextStep_store Let_def)
        with present awaiting current show ?thesis by auto
      next
        case rejected
        with present awaiting current show ?thesis
          by (auto simp add: answerQuestion_def Let_def)
      next
        case stored
        with present awaiting current
        have "snd (answerQuestion sessions sessionId answer) =
            sessions(sessionId \<mapsto> state\<lparr>answers := (answers state)(field q \<mapsto> trim answer),
                                          step := step state + 1\<rparr>)"
          by (auto simp add: answerQuestion_def moveToNextStep_store Let_def)
        with present awaiting current show ?thesis by auto
      qed
    qed
  qed
qed

lemma startSoulBuilder_store:
  "snd (startSoulBuilder now sessions sessionId) =
     (case sessions sessionId of
        Some existing \<Rightarrow> sessions
      | None \<Rightarrow> sessions(sessionId \<mapsto> \<lparr>step = 1, answers = Map.empty, createdAt = now\<rparr>))"
  by (simp add: startSoulBuilder_def split: option.split)

lemma exec_present:
  assumes "sessions sessionId = Some state" and "exec e sessions sessionId = Some state'"
  shows "createdAt state' = createdAt state \<and>
    (step state' = step state \<and> answers state' = answers state \<or>
     step state' = step state + 1 \<and> 1 \<le> step state \<and> step state \<le> TOTAL_STEPS)"
proof (cases e)
  case (Start sid now)
  with assms show ?thesis
    by (cases "sessions sid") (auto simp: startSoulBuilder_store split: if_splits)
next
  case (Answer sid answer)
  from answerQuestion_store [of sessions sid answer] assms Answer show ?thesis
    by (auto split: if_splits dest: question_at_step)
next
  case (Sweep now)
  with assms show ?thesis by (simp add: sweep_def split: if_splits)
qed (use assms in simp_all)

lemma exec_call_keeps:
  assumes "sessions sessionId = Some state" and "is_call e"
  shows "\<exists>state'. exec e sessions sessionId = Some state'"
proof (cases e)
  case (Start sid now)
  with assms show ?thesis
    by (cases "sessions sid") (auto simp: startSoulBuilder_store)
next
  case (Answer sid answer)
  from answerQuestion_store [of sessions sid answer] assms Answer show ?thesis
    by auto
qed (use assms in simp_all)

lemma exec_absent:
  assumes "sessions sessionId = None" and "exec e sessions sessionId = Some state'"
  shows "step state' = 1 \<and> answers state' = Map.empty"
proof (cases e)
  case (Start sid now)
  with assms show ?thesis
    by (cases "sessions sid") (auto simp: startSoulBuilder_store split: if_splits)
next
  case (Answer sid answer)
  from answerQuestion_store [of sessions sid answer] assms Answer show ?thesis
    by (auto split: if_splits)
next
  case (Sweep now)
  with assms show ?thesis by (simp add: sweep_def)
qed (use assms in simp_all)

lemma steps_in_range_exec:
  assumes "steps_in_range sessions"
  shows "steps_in_range (exec e sessions)"
  unfolding steps_in_range_def
proof (intro allI impI)
  fix sessionId state'
  assume after: "exec e sessions sessionId = Some state'"
  show "1 \<le> step state' \<and> step state' \<le> TOTAL_STEPS + 1"
  proof (cases "sessions sessionId")
    case None
    from exec_absent [OF None after] show ?thesis by (simp add: TOTAL_STEPS_eq)
  next
    case (Some state)
    with assms have "1 \<le> step state \<and> step state \<le> TOTAL_STEPS + 1"
      by (simp add: steps_in_range_def)
    with exec_present [OF Some after] show ?thesis by auto
  qed
qed

lemma steps_in_range_run:
  "steps_in_range sessions \<Longrightarrow> steps_in_range (run es sessions)"
  by (induction es arbitrary: sessions) (simp_all add: steps_in_range_exec)

lemma steps_in_range_empty: "steps_in_range Map.empty"
  by (simp add: steps_in_range_def)

lemma calls_keep_session:
  assumes "sessions sessionId = Some state" and "\<forall>e \<in> set es. is_call e"
  shows "\<exists>state'. run es sessions sessionId = Some state' \<and>
    createdAt state' = createdAt state \<and> step state \<le> step state'"
  using assms
proof (induction es arbitrary: sessions state)
  case Nil
  then show ?case by simp
next
  case (Cons e es)
  from Cons.prems obtain mid where mid: "exec e sessions sessionId = Some mid"
    using exec_call_keeps [of sessions sessionId state e] by auto
  from exec_present [OF Cons.prems(1) mid]
  have same: "createdAt mid = createdAt state" and up: "step state \<le> step mid"
    by auto
  from Cons.prems(2) have "\<forall>e \<in> set es. is_call e" by simp
  from Cons.IH [of "exec e sessions" mid, OF mid this] obtain state' where
    "run es (exec e sessions) sessionId = Some state'"
    "createdAt state' = createdAt mid" "step mid \<le> step state'"
    by blast
  with same up show ?case by simp
qed

lemma run_append: "run (es @ es') sessions = run es' (run es sessions)"
  by (induction es arbitrary: sessions) simp_all

lemma scenario_from_in_progress:
  "scenario = run (remaining_required_events @ [Answer s1 (js '' Skip '')]) in_progress"
  by (simp only: scenario_def scenario_events_def in_progress_def run_append)

section \<open>Starting twice\<close>

text \<open>
  Claim C5. \<open>startSoulBuilder\<close> is idempotent. When a session exists for the identifier,
  the store comes back as it was, and the result carries the session's own step and the
  text of the question at that step (for a step from 1 to \<open>TOTAL_STEPS\<close> that is the
  question in progress), with the "already active" message instead of the welcome. When no
  session exists, a session with step 1, no answers and the current clock reading is
  stored, and the result carries question 1. A second start, at any later clock reading,
  leaves the store of the first start as it is.
\<close>

theorem start_is_idempotent:
  fixes sessions :: sessions and sessionId :: js_string and now :: int
  defines "r \<equiv> fst (startSoulBuilder now sessions sessionId)"
    and "after \<equiv> snd (startSoulBuilder now sessions sessionId)"
  shows "(\<forall>existing. sessions sessionId = Some existing \<longrightarrow>
            after = sessions \<and> success r \<and>
            currentStep r = Some (step existing) \<and>
            totalSteps r = Some TOTAL_STEPS \<and>
            isComplete r = Some (step existing > TOTAL_STEPS) \<and>
            nextQuestion r = map_option question (at_index SOUL_QUESTIONS (step existing - 1)) \<and>
            message r = js ''Session bereits aktiv. Wir sind bei Frage '' @
              numberToString (step existing) @ js ''/'' @ numberToString TOTAL_STEPS @ js ''.'') \<and>
         (sessions sessionId = None \<longrightarrow>
            after = sessions(sessionId \<mapsto> \<lparr>step = 1, answers = Map.empty, createdAt = now\<rparr>) \<and>
            success r \<and> currentStep r = Some 1 \<and> isComplete r = Some False \<and>
            nextQuestion r = map_option question (at_index SOUL_QUESTIONS (1 - 1))) \<and>
         snd (startSoulBuilder now' after sessionId) = after"
  by (cases "sessions sessionId")
     (simp_all add: r_def after_def startSoulBuilder_def at_index_def SOUL_QUESTIONS_def)

theorem start_is_idempotent_witness:
  "snd (startSoulBuilder 99 in_progress s1) = in_progress \<and>
   success (fst (startSoulBuilder 99 in_progress s1)) \<and>
   currentStep (fst (startSoulBuilder 99 in_progress s1)) = Some 3 \<and>
   isComplete (fst (startSoulBuilder 99 in_progress s1)) = Some False \<and>
   nextQuestion (fst (startSoulBuilder 99 in_progress s1)) =
     Some (js ''Was sind 2-3 Kernwerte deines Agenten?'') \<and>
   message (fst (startSoulBuilder 99 in_progress s1)) =
     js ''Session bereits aktiv. Wir sind bei Frage 3/6.'' \<and>
   snd (startSoulBuilder 99 Map.empty s1) =
     [s1 \<mapsto> \<lparr>step = 1, answers = Map.empty, createdAt = 99\<rparr>] \<and>
   currentStep (fst (startSoulBuilder 99 Map.empty s1)) = Some 1 \<and>
   snd (startSoulBuilder 200 (snd (startSoulBuilder 99 Map.empty s1)) s1) =
     snd (startSoulBuilder 99 Map.empty s1)"
proof -
  have q: "map_option question (at_index SOUL_QUESTIONS (3 - 1)) =
      Some (js ''Was sind 2-3 Kernwerte deines Agenten?'')"
    by (simp add: at_index_def SOUL_QUESTIONS_def)
  have m: "js ''Session bereits aktiv. Wir sind bei Frage '' @ numberToString 3 @ js ''/'' @
      numberToString 6 @ js ''.'' = js ''Session bereits aktiv. Wir sind bei Frage 3/6.''"
    by (simp add: numberToString_def digits.simps js_def)
  have existing: "snd (startSoulBuilder 99 in_progress s1) = in_progress \<and>
      success (fst (startSoulBuilder 99 in_progress s1)) \<and>
      currentStep (fst (startSoulBuilder 99 in_progress s1)) = Some 3 \<and>
      isComplete (fst (startSoulBuilder 99 in_progress s1)) = Some False \<and>
      nextQuestion (fst (startSoulBuilder 99 in_progress s1)) =
        Some (js ''Was sind 2-3 Kernwerte deines Agenten?'') \<and>
      message (fst (startSoulBuilder 99 in_progress s1)) =
        js ''Session bereits aktiv. Wir sind bei Frage 3/6.''"
    using start_is_idempotent
        [where sessions = in_progress and sessionId = s1 and now = 99 and now' = 200]
      in_progress_s1 q m
    by (simp add: TOTAL_STEPS_eq)
  have fresh: "snd (startSoulBuilder 99 Map.empty s1) =
        [s1 \<mapsto> \<lparr>step = 1, answers = Map.empty, createdAt = 99\<rparr>] \<and>
      currentStep (fst (startSoulBuilder 99 Map.empty s1)) = Some 1 \<and>
      snd (startSoulBuilder 200 (snd (startSoulBuilder 99 Map.empty s1)) s1) =
        snd (startSoulBuilder 99 Map.empty s1)"
    using start_is_idempotent
        [where sessions = Map.empty and sessionId = s1 and now = 99 and now' = 200]
    by blast
  from existing fresh show ?thesis by blast
qed

section \<open>Generating and exporting before completion\<close>

lemma sublist_singleton: "sublist [x] ys \<longleftrightarrow> x \<in> set ys"
  by (induction ys) (simp_all add: sublist_Cons_right)

text \<open>
  Claim C3, as stated, fails for \<open>exportSoul\<close>: its failure carries a fixed message and no
  step counters. In the scenario's store after two answers, four questions remain; the
  export message does not contain \<open>4\<close>, the result has no \<open>currentStep\<close> and no
  \<open>totalSteps\<close>, and it is the very result that a session with six questions remaining
  gets.
\<close>

theorem export_reports_no_count_counterexample:
  "numberToString (TOTAL_STEPS - 3 + 1) = js ''4'' \<and>
   \<not> sublist (js ''4'') (message (exportSoul in_progress s1)) \<and>
   currentStep (exportSoul in_progress s1) = None \<and>
   totalSteps (exportSoul in_progress s1) = None \<and>
   exportSoul in_progress s1 = exportSoul just_started s1"
  by (simp add: exportSoul_def in_progress_s1 just_started_s1 TOTAL_STEPS_eq numberToString_def
      digits.simps js_def sublist_singleton)

text \<open>
  Claim C3, amended. For every existing session with step at most \<open>TOTAL_STEPS\<close>, both
  \<open>generateSoul\<close> and \<open>exportSoul\<close> return a failure (\<open>success = False\<close>) that carries no
  document. The failure of \<open>generateSoul\<close> reports the count of remaining questions,
  \<open>TOTAL_STEPS - step + 1\<close>, in its message, with the current step and the total; the
  failure of \<open>exportSoul\<close> is a fixed message.
\<close>

theorem incomplete_generate_export_fail:
  assumes "sessions sessionId = Some state"
    and "step state \<le> TOTAL_STEPS"
  shows "generateSoul sessions sessionId =
           \<lparr>success = False,
            message = js ''Noch '' @ numberToString (TOTAL_STEPS - step state + 1) @
              js '' Frage(n) offen. Bitte beantworte alle Fragen zuerst.'',
            nextQuestion = None,
            currentStep = Some (step state),
            totalSteps = Some TOTAL_STEPS,
            isComplete = None, soulMd = None\<rparr> \<and>
         exportSoul sessions sessionId =
           \<lparr>success = False,
            message = js ''Soul noch nicht vollst'' @ [0xE4] @
              js ''ndig. Bitte beantworte alle Fragen und nutze generate_soul.'',
            nextQuestion = None, currentStep = None, totalSteps = None,
            isComplete = None, soulMd = None\<rparr>"
  using assms by (simp add: generateSoul_def exportSoul_def)

theorem incomplete_generate_export_fail_witness:
  "generateSoul in_progress s1 =
     \<lparr>success = False,
      message = js ''Noch 4 Frage(n) offen. Bitte beantworte alle Fragen zuerst.'',
      nextQuestion = None,
      currentStep = Some 3,
      totalSteps = Some 6,
      isComplete = None, soulMd = None\<rparr> \<and>
   exportSoul in_progress s1 =
     \<lparr>success = False,
      message = js ''Soul noch nicht vollst'' @ [0xE4] @
        js ''ndig. Bitte beantworte alle Fragen und nutze generate_soul.'',
      nextQuestion = None, currentStep = None, totalSteps = None,
      isComplete = None, soulMd = None\<rparr>"
proof -
  have m: "js ''Noch '' @ numberToString 4 @
      js '' Frage(n) offen. Bitte beantworte alle Fragen zuerst.'' =
      js ''Noch 4 Frage(n) offen. Bitte beantworte alle Fragen zuerst.''"
    by (simp add: numberToString_def digits.simps js_def)
  show ?thesis
    using incomplete_generate_export_fail
        [where sessions = in_progress and sessionId = s1, OF in_progress_s1] m
    by (simp add: TOTAL_STEPS_eq)
qed

section \<open>Generating and exporting a complete session\<close>

text \<open>
  Claim C7. For a complete session, \<open>generateSoul\<close> and \<open>exportSoul\<close> both succeed and
  both return the document that \<open>generateSoulMd\<close> renders from the stored answers, so the
  two documents are the same text. Neither needs the other: each is a function of the
  store alone, and a call of \<open>generate_soul\<close> leaves the store, and so the result of a later
  export, as it was. The renderer is a function of the answer set alone: answer sets that
  agree on every field render to the same text.
\<close>

theorem generate_export_same_document:
  assumes "sessions sessionId = Some state"
    and "step state > TOTAL_STEPS"
  shows "success (generateSoul sessions sessionId) \<and>
         success (exportSoul sessions sessionId) \<and>
         soulMd (generateSoul sessions sessionId) = Some (generateSoulMd (answers state)) \<and>
         soulMd (exportSoul sessions sessionId) = soulMd (generateSoul sessions sessionId) \<and>
         exportSoul (exec (Generate sessionId) sessions) sessionId = exportSoul sessions sessionId \<and>
         (\<forall>a. (\<forall>f. a f = answers state f) \<longrightarrow> generateSoulMd a = generateSoulMd (answers state))"
proof -
  have render: "generateSoulMd a = generateSoulMd (answers state)"
    if "\<forall>f. a f = answers state f" for a
  proof -
    from that have "a = answers state" by (intro ext) simp
    then show ?thesis by (rule arg_cong)
  qed
  have results: "success (generateSoul sessions sessionId) \<and>
      success (exportSoul sessions sessionId) \<and>
      soulMd (generateSoul sessions sessionId) = Some (generateSoulMd (answers state)) \<and>
      soulMd (exportSoul sessions sessionId) = soulMd (generateSoul sessions sessionId)"
    using assms by (simp add: generateSoul_def exportSoul_def)
  have "exportSoul (exec (Generate sessionId) sessions) sessionId = exportSoul sessions sessionId"
    by simp
  with results render show ?thesis by blast
qed

theorem generate_export_same_document_witness:
  "success (generateSoul scenario s1) \<and>
   success (exportSoul scenario s1) \<and>
   soulMd (exportSoul scenario s1) = soulMd (generateSoul scenario s1) \<and>
   soulMd (exportSoul scenario s1) =
     Some (generateSoulMd
       [name \<mapsto> js ''Aria'', personality \<mapsto> js ''warm, direkt, neugierig'',
        coreValues \<mapsto> js ''Ehrlichkeit, Neugier'', tone \<mapsto> js ''casual'',
        backstory \<mapsto> js ''Born in a lab.'', signature \<mapsto> []])"
proof -
  let ?state = "\<lparr>step = 7,
      answers = [name \<mapsto> js ''Aria'', personality \<mapsto> js ''warm, direkt, neugierig'',
                 coreValues \<mapsto> js ''Ehrlichkeit, Neugier'', tone \<mapsto> js ''casual'',
                 backstory \<mapsto> js ''Born in a lab.'', signature \<mapsto> []],
      createdAt = 0\<rparr>"
  have complete: "step ?state > TOTAL_STEPS"
    by (simp add: TOTAL_STEPS_eq)
  note t = generate_export_same_document
      [where sessions = scenario and sessionId = s1, OF scenario_s1 complete]
  from t have 1: "success (generateSoul scenario s1)" by (rule conjunct1)
  from t have 2: "success (exportSoul scenario s1)" by (elim conjE)
  from t have 3: "soulMd (generateSoul scenario s1) = Some (generateSoulMd (answers ?state))"
    by (elim conjE)
  from t have 4: "soulMd (exportSoul scenario s1) = soulMd (generateSoul scenario s1)"
    by (elim conjE)
  from 4 3 have 5: "soulMd (exportSoul scenario s1) = Some (generateSoulMd (answers ?state))"
    by (rule trans)
  have 6: "answers ?state = [name \<mapsto> js ''Aria'', personality \<mapsto> js ''warm, direkt, neugierig'',
        coreValues \<mapsto> js ''Ehrlichkeit, Neugier'', tone \<mapsto> js ''casual'',
        backstory \<mapsto> js ''Born in a lab.'', signature \<mapsto> []]"
    by (rule SoulState.select_convs)
  from 1 2 4 5 [unfolded 6] show ?thesis by (intro conjI)
qed

section \<open>The skip sentinel\<close>

lemma sixth_question:
  "at_index SOUL_QUESTIONS (6 - 1) = Some (SOUL_QUESTIONS ! 5) \<and>
   optional (SOUL_QUESTIONS ! 5) \<and> field (SOUL_QUESTIONS ! 5) = signature"
  by (simp add: at_index_def SOUL_QUESTIONS_def)

text \<open>
  What the case-insensitive match accepts: the four-unit strings that spell \<open>skip\<close> with
  each letter in either case, where the \<open>k\<close> may also be U+212A KELVIN SIGN.
\<close>

lemma add_32_eq: "(c :: 16 word) + 0x20 = d \<longleftrightarrow> c = d - 0x20"
  by auto

lemma lowerUnit_s: "lowerUnit c = 0x73 \<longleftrightarrow> c = 0x53 \<or> c = 0x73"
  unfolding lowerUnit_def by (auto simp: add_32_eq)

lemma lowerUnit_k: "lowerUnit c = 0x6B \<longleftrightarrow> c = 0x4B \<or> c = 0x6B \<or> c = 0x212A"
  unfolding lowerUnit_def by (auto simp: add_32_eq)

lemma lowerUnit_i: "lowerUnit c = 0x69 \<longleftrightarrow> c = 0x49 \<or> c = 0x69"
  unfolding lowerUnit_def by (auto simp: add_32_eq)

lemma lowerUnit_p: "lowerUnit c = 0x70 \<longleftrightarrow> c = 0x50 \<or> c = 0x70"
  unfolding lowerUnit_def by (auto simp: add_32_eq)

lemma toLowerCase_skip_iff:
  "toLowerCase s = js ''skip'' \<longleftrightarrow>
     (\<exists>a b c d. s = [a, b, c, d] \<and> (a = 0x53 \<or> a = 0x73) \<and>
        (b = 0x4B \<or> b = 0x6B \<or> b = 0x212A) \<and> (c = 0x49 \<or> c = 0x69) \<and>
        (d = 0x50 \<or> d = 0x70))"
proof -
  have "toLowerCase s = js ''skip'' \<longleftrightarrow>
      (\<exists>a b c d. s = [a, b, c, d] \<and> lowerUnit a = 0x73 \<and> lowerUnit b = 0x6B \<and>
         lowerUnit c = 0x69 \<and> lowerUnit d = 0x70)"
    by (auto simp: toLowerCase_def js_def map_eq_Cons_conv)
  then show ?thesis
    by (simp only: lowerUnit_s lowerUnit_k lowerUnit_i lowerUnit_p)
qed

text \<open>
  Claim C2. When a session awaits the question \<open>q\<close> and the answer is not rejected (the
  question is optional, or the trimmed answer is not empty), \<open>answerQuestion\<close> succeeds,
  advances the step by one and stores under the field of \<open>q\<close>: the empty string exactly
  when \<open>q\<close> is optional and the lower-cased trimmed answer is \<open>skip\<close>, and the trimmed
  answer as it is otherwise. So for a required question the text \<open>skip\<close> is stored like
  any other answer.
\<close>

theorem skip_only_for_optional:
  assumes "sessions sessionId = Some state"
    and "step state \<le> TOTAL_STEPS"
    and "at_index SOUL_QUESTIONS (step state - 1) = Some q"
    and "optional q \<or> trim answer \<noteq> []"
  shows "snd (answerQuestion sessions sessionId answer) =
           sessions(sessionId \<mapsto> state
             \<lparr>answers := (answers state)(field q \<mapsto>
                 (if optional q \<and> toLowerCase (trim answer) = js ''skip'' then []
                  else trim answer)),
              step := step state + 1\<rparr>) \<and>
         (\<exists>r. fst (answerQuestion sessions sessionId answer) = Inr r \<and> success r \<and>
              currentStep r = Some (step state + 1) \<and>
              isComplete r = Some (step state + 1 > TOTAL_STEPS))"
proof -
  have next_q: "at_index SOUL_QUESTIONS (step state + 1 - 1) = Some (SOUL_QUESTIONS ! nat (step state))"
    if "step state + 1 \<le> TOTAL_STEPS"
    using assms(3) that by (rule question_at_next_step)
  from assms(4) have accepted: "\<not> (trim answer = [] \<and> \<not> optional q)"
    by blast
  show ?thesis
  proof (cases "step state + 1 > TOTAL_STEPS")
    case True
    with assms(1-3) accepted show ?thesis
      by (simp add: answerQuestion_def moveToNextStep_def Let_def)
  next
    case False
    then have "step state + 1 \<le> TOTAL_STEPS" by simp
    from next_q [OF this] False assms(1-3) accepted show ?thesis
      by (simp add: answerQuestion_def moveToNextStep_def Let_def)
  qed
qed

theorem skip_only_for_optional_witness:
  "snd (answerQuestion in_progress s1 (js ''skip'')) s1 =
     Some \<lparr>step = 4,
           answers = [name \<mapsto> js ''Aria'', personality \<mapsto> js ''warm, direkt, neugierig'',
                      coreValues \<mapsto> js ''skip''],
           createdAt = 0\<rparr> \<and>
   snd (answerQuestion awaiting_signature s1 (js '' SKIP '')) s1 =
     Some \<lparr>step = 7,
           answers = [name \<mapsto> js ''Aria'', personality \<mapsto> js ''warm, direkt, neugierig'',
                      coreValues \<mapsto> js ''Ehrlichkeit, Neugier'', tone \<mapsto> js ''casual'',
                      backstory \<mapsto> js ''Born in a lab.'', signature \<mapsto> []],
           createdAt = 0\<rparr> \<and>
   snd (answerQuestion awaiting_signature s1 (js ''Stay curious.'')) s1 =
     Some \<lparr>step = 7,
           answers = [name \<mapsto> js ''Aria'', personality \<mapsto> js ''warm, direkt, neugierig'',
                      coreValues \<mapsto> js ''Ehrlichkeit, Neugier'', tone \<mapsto> js ''casual'',
                      backstory \<mapsto> js ''Born in a lab.'', signature \<mapsto> js ''Stay curious.''],
           createdAt = 0\<rparr>"
proof -
  have t1: "trim (js ''skip'') = js ''skip''"
    and t2: "trim (js '' SKIP '') = js ''SKIP''"
    and t3: "trim (js ''Stay curious.'') = js ''Stay curious.''"
    by (simp_all add: trim_def isWhiteSpace_def js_def)
  have l2: "toLowerCase (js ''SKIP'') = js ''skip''"
    and l3: "toLowerCase (js ''Stay curious.'') \<noteq> js ''skip''"
    by (simp_all add: toLowerCase_def lowerUnit_def js_def)
  have ne: "js ''skip'' \<noteq> []" "js ''Stay curious.'' \<noteq> []"
    by (simp_all add: js_def)
  have a: "snd (answerQuestion in_progress s1 (js ''skip'')) s1 =
     Some \<lparr>step = 4,
           answers = [name \<mapsto> js ''Aria'', personality \<mapsto> js ''warm, direkt, neugierig'',
                      coreValues \<mapsto> js ''skip''],
           createdAt = 0\<rparr>"
    using skip_only_for_optional
        [where sessions = in_progress and sessionId = s1 and q = "SOUL_QUESTIONS ! 2"
           and answer = "js ''skip''", OF in_progress_s1]
      third_question ne
    by (simp add: TOTAL_STEPS_eq t1)
  have b: "snd (answerQuestion awaiting_signature s1 (js '' SKIP '')) s1 =
     Some \<lparr>step = 7,
           answers = [name \<mapsto> js ''Aria'', personality \<mapsto> js ''warm, direkt, neugierig'',
                      coreValues \<mapsto> js ''Ehrlichkeit, Neugier'', tone \<mapsto> js ''casual'',
                      backstory \<mapsto> js ''Born in a lab.'', signature \<mapsto> []],
           createdAt = 0\<rparr>"
    using skip_only_for_optional
        [where sessions = awaiting_signature and sessionId = s1 and q = "SOUL_QUESTIONS ! 5"
           and answer = "js '' SKIP ''", OF awaiting_signature_s1]
      sixth_question
    by (simp add: TOTAL_STEPS_eq t2 l2)
  have c: "snd (answerQuestion awaiting_signature s1 (js ''Stay curious.'')) s1 =
     Some \<lparr>step = 7,
           answers = [name \<mapsto> js ''Aria'', personality \<mapsto> js ''warm, direkt, neugierig'',
                      coreValues \<mapsto> js ''Ehrlichkeit, Neugier'', tone \<mapsto> js ''casual'',
                      backstory \<mapsto> js ''Born in a lab.'', signature \<mapsto> js ''Stay curious.''],
           createdAt = 0\<rparr>"
    using skip_only_for_optional
        [where sessions = awaiting_signature and sessionId = s1 and q = "SOUL_QUESTIONS ! 5"
           and answer = "js ''Stay curious.''", OF awaiting_signature_s1]
      sixth_question
    by (simp add: TOTAL_STEPS_eq t3 l3)
  from a b c show ?thesis by (intro conjI)
qed

section \<open>What answering leaves alone\<close>

text \<open>
  Claim C9. A call of \<open>answerQuestion\<close> on an existing session keeps the session, keeps its
  \<open>createdAt\<close>, leaves its step or adds one to it, changes no answer slot but the one of
  the question at the current step, and changes no other session. No event that leaves
  the session in the store changes its \<open>createdAt\<close>. So after any sequence of tool calls
  the session is still there with the \<open>createdAt\<close> of its creation, and a sweep at clock
  reading \<open>now\<close> removes it exactly when \<open>now - createdAt\<close> exceeds the expiry window of
  the session as it was created: answering extends nothing.
\<close>

theorem answering_keeps_creation_time:
  assumes "sessions sessionId = Some state"
  shows "(\<exists>state'. snd (answerQuestion sessions sessionId answer) sessionId = Some state' \<and>
            createdAt state' = createdAt state \<and>
            (step state' = step state \<or> step state' = step state + 1) \<and>
            (\<forall>f. answers state' f = answers state f \<or>
                 map_option field (at_index SOUL_QUESTIONS (step state - 1)) = Some f)) \<and>
         (\<forall>other. other \<noteq> sessionId \<longrightarrow>
            snd (answerQuestion sessions sessionId answer) other = sessions other) \<and>
         (\<forall>e state'. exec e sessions sessionId = Some state' \<longrightarrow>
            createdAt state' = createdAt state) \<and>
         (\<forall>es. (\<forall>e \<in> set es. is_call e) \<longrightarrow>
            (\<exists>state'. run es sessions sessionId = Some state' \<and>
               createdAt state' = createdAt state \<and>
               (\<forall>now. sweep now (run es sessions) sessionId = None \<longleftrightarrow>
                  now - createdAt state > SESSION_EXPIRY_MS)))"
proof (intro conjI allI impI)
  from answerQuestion_store [of sessions sessionId answer] assms
  show "\<exists>state'. snd (answerQuestion sessions sessionId answer) sessionId = Some state' \<and>
      createdAt state' = createdAt state \<and>
      (step state' = step state \<or> step state' = step state + 1) \<and>
      (\<forall>f. answers state' f = answers state f \<or>
           map_option field (at_index SOUL_QUESTIONS (step state - 1)) = Some f)"
    by auto
next
  fix other
  assume "other \<noteq> sessionId"
  with answerQuestion_store [of sessions sessionId answer]
  show "snd (answerQuestion sessions sessionId answer) other = sessions other"
    by auto
next
  fix e state'
  assume "exec e sessions sessionId = Some state'"
  from exec_present [OF assms this] show "createdAt state' = createdAt state"
    by simp
next
  fix es
  assume "\<forall>e \<in> set es. is_call e"
  from calls_keep_session [of sessions sessionId state es, OF assms this] obtain state' where
    kept: "run es sessions sessionId = Some state'" and same: "createdAt state' = createdAt state"
    by blast
  then have "\<forall>now. sweep now (run es sessions) sessionId = None \<longleftrightarrow>
      now - createdAt state > SESSION_EXPIRY_MS"
    by (simp add: sweep_def)
  with kept same
  show "\<exists>state'. run es sessions sessionId = Some state' \<and>
      createdAt state' = createdAt state \<and>
      (\<forall>now. sweep now (run es sessions) sessionId = None \<longleftrightarrow>
         now - createdAt state > SESSION_EXPIRY_MS)"
    by blast
qed

theorem answering_keeps_creation_time_witness:
  "map_option createdAt (snd (answerQuestion in_progress s1 (js ''Neugier'')) s1) = Some 0 \<and>
   map_option createdAt (scenario s1) = Some 0 \<and>
   sweep 3600001 scenario s1 = None \<and>
   sweep 3600000 scenario s1 \<noteq> None"
proof -
  let ?state = "\<lparr>step = 3,
      answers = [name \<mapsto> js ''Aria'', personality \<mapsto> js ''warm, direkt, neugierig''],
      createdAt = 0\<rparr>"
  note t = answering_keeps_creation_time
      [where sessions = in_progress and sessionId = s1 and answer = "js ''Neugier''",
       OF in_progress_s1]
  from t have "\<exists>state'. snd (answerQuestion in_progress s1 (js ''Neugier'')) s1 = Some state' \<and>
      createdAt state' = createdAt ?state"
    by blast
  then have one: "map_option createdAt (snd (answerQuestion in_progress s1 (js ''Neugier'')) s1) = Some 0"
    by auto
  have calls: "\<forall>e \<in> set (remaining_required_events @ [Answer s1 (js '' Skip '')]). is_call e"
    by (simp add: remaining_required_events_def)
  from t have every: "\<forall>es. (\<forall>e \<in> set es. is_call e) \<longrightarrow>
            (\<exists>state'. run es in_progress s1 = Some state' \<and>
               createdAt state' = createdAt ?state \<and>
               (\<forall>now. sweep now (run es in_progress) s1 = None \<longleftrightarrow>
                  now - createdAt ?state > SESSION_EXPIRY_MS))"
    by (elim conjE)
  from every [THEN spec, THEN mp, OF calls]
  have "\<exists>state'. run (remaining_required_events @ [Answer s1 (js '' Skip '')]) in_progress s1 =
        Some state' \<and>
      createdAt state' = createdAt ?state \<and>
      (\<forall>now. sweep now (run (remaining_required_events @ [Answer s1 (js '' Skip '')])
          in_progress) s1 = None \<longleftrightarrow> now - createdAt ?state > SESSION_EXPIRY_MS)"
    .
  then obtain state' where kept: "scenario s1 = Some state'"
    and same: "createdAt state' = createdAt ?state"
    and swept: "\<forall>now. sweep now scenario s1 = None \<longleftrightarrow>
        now - createdAt ?state > SESSION_EXPIRY_MS"
    unfolding scenario_from_in_progress [symmetric] by (elim exE conjE)
  from kept same have created: "map_option createdAt (scenario s1) = Some 0"
    by simp
  from swept have late: "sweep 3600001 scenario s1 = None \<longleftrightarrow> (3600001::int) - 0 > 3600000"
    and in_time: "sweep 3600000 scenario s1 = None \<longleftrightarrow> (3600000::int) - 0 > 3600000"
    by (simp_all add: SESSION_EXPIRY_MS_def)
  from created late in_time
  have many: "map_option createdAt (scenario s1) = Some 0 \<and>
      sweep 3600001 scenario s1 = None \<and> sweep 3600000 scenario s1 \<noteq> None"
    by simp
  from one many show ?thesis by (intro conjI) simp_all
qed

section \<open>The progression of the step\<close>

text \<open>
  Claim C4. Take the store after any sequence of events from the empty store of process
  start, and any session identifier. A session stored there has a step from 1 to
  \<open>TOTAL_STEPS + 1\<close>. One more event, whatever it is, creates the session with step 1 if
  it was absent, and otherwise leaves its step or adds exactly one to it. Across any
  further sequence of tool calls the session stays and its step does not decrease.
  (Only the sweep removes a session; a later start under the same identifier creates a
  new session, with step 1.)
\<close>

theorem step_progression:
  fixes es :: "event list" and e :: event and sessionId :: js_string
  defines "before \<equiv> run es Map.empty"
  defines "after \<equiv> exec e (run es Map.empty)"
  shows "(\<forall>state. before sessionId = Some state \<longrightarrow>
            1 \<le> step state \<and> step state \<le> TOTAL_STEPS + 1) \<and>
         (\<forall>state'. before sessionId = None \<longrightarrow> after sessionId = Some state' \<longrightarrow>
            step state' = 1) \<and>
         (\<forall>state state'. before sessionId = Some state \<longrightarrow> after sessionId = Some state' \<longrightarrow>
            step state' = step state \<or> step state' = step state + 1) \<and>
         (\<forall>state calls. before sessionId = Some state \<longrightarrow> (\<forall>c \<in> set calls. is_call c) \<longrightarrow>
            (\<exists>state'. run calls before sessionId = Some state' \<and> step state \<le> step state'))"
proof (intro conjI allI impI)
  fix state
  assume "before sessionId = Some state"
  moreover have "steps_in_range before"
    unfolding before_def by (rule steps_in_range_run [OF steps_in_range_empty])
  ultimately show "1 \<le> step state" and "step state \<le> TOTAL_STEPS + 1"
    by (simp_all add: steps_in_range_def)
next
  fix state'
  assume "before sessionId = None" and "after sessionId = Some state'"
  then show "step state' = 1"
    unfolding before_def after_def by (simp add: exec_absent)
next
  fix state state'
  assume "before sessionId = Some state" and "after sessionId = Some state'"
  then have "exec e before sessionId = Some state'"
    by (simp add: before_def after_def)
  from exec_present [OF \<open>before sessionId = Some state\<close> this]
  show "step state' = step state \<or> step state' = step state + 1"
    by auto
next
  fix state calls
  assume "before sessionId = Some state" and "\<forall>c \<in> set calls. is_call c"
  from calls_keep_session [of before sessionId state calls, OF this]
  show "\<exists>state'. run calls before sessionId = Some state' \<and> step state \<le> step state'"
    by blast
qed

theorem step_progression_witness:
  "run in_progress_events Map.empty s1 =
     Some \<lparr>step = 3,
           answers = [name \<mapsto> js ''Aria'', personality \<mapsto> js ''warm, direkt, neugierig''],
           createdAt = 0\<rparr> \<and>
   exec (Answer s1 (js ''Neugier'')) (run in_progress_events Map.empty) s1 =
     Some \<lparr>step = 4,
           answers = [name \<mapsto> js ''Aria'', personality \<mapsto> js ''warm, direkt, neugierig'',
                      coreValues \<mapsto> js ''Neugier''],
           createdAt = 0\<rparr> \<and>
   (1::int) \<le> 3 \<and> 3 \<le> TOTAL_STEPS + 1 \<and> ((4::int) = 3 \<or> (4::int) = 3 + 1) \<and>
   (\<exists>state'. run remaining_required_events (run in_progress_events Map.empty) s1 = Some state' \<and>
      3 \<le> step state')"
proof -
  let ?before = "\<lparr>step = 3,
      answers = [name \<mapsto> js ''Aria'', personality \<mapsto> js ''warm, direkt, neugierig''],
      createdAt = 0\<rparr>"
  let ?after = "\<lparr>step = 4,
      answers = [name \<mapsto> js ''Aria'', personality \<mapsto> js ''warm, direkt, neugierig'',
                 coreValues \<mapsto> js ''Neugier''],
      createdAt = 0\<rparr>"
  have before: "run in_progress_events Map.empty s1 = Some ?before"
    using in_progress_s1 by (simp only: in_progress_def)
  have "exec (Answer s1 (js ''Neugier'')) in_progress s1 = Some ?after"
    by (simp add: in_progress_s1 third_question [simplified] answerQuestion_def
        moveToNextStep_store TOTAL_STEPS_eq trim_def isWhiteSpace_def js_def)
  then have after: "exec (Answer s1 (js ''Neugier'')) (run in_progress_events Map.empty) s1 =
      Some ?after"
    by (simp only: in_progress_def)
  have calls: "\<forall>c \<in> set remaining_required_events. is_call c"
    by (simp add: remaining_required_events_def)
  note t = step_progression [where es = in_progress_events and sessionId = s1
      and e = "Answer s1 (js ''Neugier'')"]
  from t before have range: "1 \<le> step ?before \<and> step ?before \<le> TOTAL_STEPS + 1"
    by blast
  from t before after have change: "step ?after = step ?before \<or> step ?after = step ?before + 1"
    by blast
  from t before calls
  have later: "\<exists>state'. run remaining_required_events (run in_progress_events Map.empty) s1 =
      Some state' \<and> step ?before \<le> step state'"
    by blast
  from before after range change later show ?thesis
    by simp
qed

section \<open>The signature section of the document\<close>

text \<open>
  Claim C6. For every answer set with a signature field, the rendered document ends with
  the signature section followed by the fixed footer. The section is the heading
  \<open>## Signature\<close>, a line break and a body; the body is the stored signature when that is
  not empty, and the fixed placeholder \<open>*Keine Signatur definiert*\<close> when it is the empty
  string, which is what both a skip and an empty answer store. The body is never empty.
\<close>

theorem signature_section_rendering:
  assumes "a signature = Some sig"
  shows "suffix
           (js ''## Signature'' @ NL @
            (if sig = [] then js ''*Keine Signatur definiert*'' else sig) @ NL @
            NL @
            js ''---'' @ NL @
            js ''*Generated by Soul Builder '' @ [0x2014] @ js '' ag3nt.id*'' @ NL @
            js ''*Give your agent an identity.*'' @ NL)
           (generateSoulMd a) \<and>
         (if sig = [] then js ''*Keine Signatur definiert*'' else sig) \<noteq> []"
proof
  let ?before = "js ''# SOUL.md '' @ [0x2014] @ js '' '' @ splice (a name) @ NL @
     NL @
     js ''## Identity'' @ NL @
     js ''**Name:** '' @ splice (a name) @ NL @
     js ''**Personality:** '' @ splice (a personality) @ NL @
     js ''**Core Values:** '' @ splice (a coreValues) @ NL @
     NL @
     js ''## Communication Style'' @ NL @
     js ''**Tone:** '' @ splice (a tone) @ NL @
     NL @
     js ''## Backstory'' @ NL @
     splice (a backstory) @ NL @
     NL"
  let ?section = "js ''## Signature'' @ NL @
     (if sig = [] then js ''*Keine Signatur definiert*'' else sig)"
  let ?footer = "NL @ NL @ js ''---'' @ NL @
     js ''*Generated by Soul Builder '' @ [0x2014] @ js '' ag3nt.id*'' @ NL @
     js ''*Give your agent an identity.*'' @ NL"
  from assms have "signatureSection a = ?section"
    by (simp add: signatureSection_def)
  then have "generateSoulMd a = ?before @ (?section @ ?footer)"
    by (simp add: generateSoulMd_def)
  then have "suffix (?section @ ?footer) (generateSoulMd a)"
    by (simp only: suffix_appendI suffix_order.refl)
  then show "suffix
           (js ''## Signature'' @ NL @
            (if sig = [] then js ''*Keine Signatur definiert*'' else sig) @ NL @
            NL @
            js ''---'' @ NL @
            js ''*Generated by Soul Builder '' @ [0x2014] @ js '' ag3nt.id*'' @ NL @
            js ''*Give your agent an identity.*'' @ NL)
           (generateSoulMd a)"
    by (simp only: append_assoc)
  show "(if sig = [] then js ''*Keine Signatur definiert*'' else sig) \<noteq> []"
    by (simp add: js_def)
qed

theorem signature_section_rendering_witness:
  "suffix
     (js ''## Signature'' @ NL @ js ''*Keine Signatur definiert*'' @ NL @
      NL @
      js ''---'' @ NL @
      js ''*Generated by Soul Builder '' @ [0x2014] @ js '' ag3nt.id*'' @ NL @
      js ''*Give your agent an identity.*'' @ NL)
     (generateSoulMd
        [name \<mapsto> js ''Aria'', personality \<mapsto> js ''warm, direkt, neugierig'',
         coreValues \<mapsto> js ''Ehrlichkeit, Neugier'', tone \<mapsto> js ''casual'',
         backstory \<mapsto> js ''Born in a lab.'', signature \<mapsto> []]) \<and>
   suffix
     (js ''## Signature'' @ NL @ js ''Stay curious.'' @ NL @
      NL @
      js ''---'' @ NL @
      js ''*Generated by Soul Builder '' @ [0x2014] @ js '' ag3nt.id*'' @ NL @
      js ''*Give your agent an identity.*'' @ NL)
     (generateSoulMd
        [name \<mapsto> js ''Aria'', personality \<mapsto> js ''warm, direkt, neugierig'',
         coreValues \<mapsto> js ''Ehrlichkeit, Neugier'', tone \<mapsto> js ''casual'',
         backstory \<mapsto> js ''Born in a lab.'', signature \<mapsto> js ''Stay curious.''])"
proof -
  have filled: "js ''Stay curious.'' \<noteq> []"
    by (simp add: js_def)
  have skipped: "suffix
     (js ''## Signature'' @ NL @ js ''*Keine Signatur definiert*'' @ NL @
      NL @
      js ''---'' @ NL @
      js ''*Generated by Soul Builder '' @ [0x2014] @ js '' ag3nt.id*'' @ NL @
      js ''*Give your agent an identity.*'' @ NL)
     (generateSoulMd
        [name \<mapsto> js ''Aria'', personality \<mapsto> js ''warm, direkt, neugierig'',
         coreValues \<mapsto> js ''Ehrlichkeit, Neugier'', tone \<mapsto> js ''casual'',
         backstory \<mapsto> js ''Born in a lab.'', signature \<mapsto> []])"
    using signature_section_rendering
      [where sig = "[]" and a = "[name \<mapsto> js ''Aria'', personality \<mapsto> js ''warm, direkt, neugierig'',
         coreValues \<mapsto> js ''Ehrlichkeit, Neugier'', tone \<mapsto> js ''casual'',
         backstory \<mapsto> js ''Born in a lab.'', signature \<mapsto> []]"]
    by simp
  have signed: "suffix
     (js ''## Signature'' @ NL @ js ''Stay curious.'' @ NL @
      NL @
      js ''---'' @ NL @
      js ''*Generated by Soul Builder '' @ [0x2014] @ js '' ag3nt.id*'' @ NL @
      js ''*Give your agent an identity.*'' @ NL)
     (generateSoulMd
        [name \<mapsto> js ''Aria'', personality \<mapsto> js ''warm, direkt, neugierig'',
         coreValues \<mapsto> js ''Ehrlichkeit, Neugier'', tone \<mapsto> js ''casual'',
         backstory \<mapsto> js ''Born in a lab.'', signature \<mapsto> js ''Stay curious.''])"
    using signature_section_rendering
      [where sig = "js ''Stay curious.''" and a = "[name \<mapsto> js ''Aria'', personality \<mapsto> js ''warm, direkt, neugierig'',
         coreValues \<mapsto> js ''Ehrlichkeit, Neugier'', tone \<mapsto> js ''casual'',
         backstory \<mapsto> js ''Born in a lab.'', signature \<mapsto> js ''Stay curious.'']"]
      filled
    by simp
  from skipped signed show ?thesis by (rule conjI)
qed

end
